theory Spec2Isabelle
  imports Complex_Main "HOL-Library.AList"
begin

section \<open>Data model: the relational records the services read and write\<close>

text \<open>
  The services talk to a relational store through an object-relational mapper. A table is a
  list of rows in the order the store returns them. Identifiers are strings, as in the
  source. Prices, quantities and ratings are integer columns, and each of the values is one
  that a number of the language holds exactly; timestamps are milliseconds on the local
  clock, every day being \<open>86400000\<close> of them.
\<close>

record orderItem =
  item_price :: int
  item_quantity :: int
  item_storeId :: string

record order =
  order_id :: string
  order_createdAt :: int
  order_userId :: string
  order_items :: "orderItem list"

record user =
  user_id :: string
  user_name :: string
  user_email :: string
  user_picture :: string
  user_createdAt :: int

record product =
  product_id :: string
  product_storeId :: string

record review =
  review_rating :: int
  review_storeId :: string

text \<open>
  Modelled from the spec: the declaration of \<open>CategoryDto\<close> and the column list of the
  category table are not part of the sources at hand; the specification gives the dto the
  fields name and slug, and a category additionally its id and its store key. The dto is an
  object that arrives from outside, and the service hands it on whole, without looking at
  its shape: besides name and slug it may carry the other columns of a category, an id or a
  store key.
\<close>

record categoryDto =
  dto_name :: string
  dto_slug :: string
  dto_id :: "string option"
  dto_storeId :: "string option"

record category =
  category_id :: string
  category_storeId :: string
  category_name :: string
  category_slug :: string

record database =
  db_orders :: "order list"
  db_users :: "user list"
  db_products :: "product list"
  db_reviews :: "review list"
  db_categories :: "category list"

section \<open>Statistics service\<close>

subsection \<open>Relation filters of the queries\<close>

text \<open>\<open>items: { some: { storeId } }\<close>: the order holds at least one item of the store.\<close>

definition itemsSome :: "string \<Rightarrow> order \<Rightarrow> bool" where
  "itemsSome storeId ord = list_ex (\<lambda>item. item_storeId item = storeId) (order_items ord)"

text \<open>\<open>include: { items: { where: { storeId } } }\<close>: the order with its items of the store only.\<close>

definition includeItemsWhere :: "string \<Rightarrow> order \<Rightarrow> order" where
  "includeItemsWhere storeId ord =
     ord\<lparr>order_items := filter (\<lambda>item. item_storeId item = storeId) (order_items ord)\<rparr>"

subsection \<open>Numbers\<close>

text \<open>
  A number of the language is a double: a rational, an infinity or not-a-number. The two
  zeros are one value here; they are equal in the language, and adding either to a sum
  leaves the sum as it is.
\<close>

datatype number = Fin rat | PosInf | NegInf | NaN

definition ofInt :: "int \<Rightarrow> number" where
  "ofInt i = Fin (of_int i)"

function bitLength :: "int \<Rightarrow> nat" where
  "bitLength n = (if n \<le> 0 then 0 else Suc (bitLength (n div 2)))"
  by pat_completeness auto
termination
  by (relation "measure nat") auto

declare bitLength.simps [simp del]

definition pow2 :: "int \<Rightarrow> rat" where
  "pow2 e = (if 0 \<le> e then 2 ^ nat e else 1 / 2 ^ nat (- e))"

text \<open>
  The exponent \<open>e\<close> at which a positive rational \<open>a\<close> has a significand of 53 bits:
  \<open>a / 2^e\<close> lies from \<open>2^52\<close> to \<open>2^53\<close>.
\<close>

definition exponentOf :: "rat \<Rightarrow> int" where
  "exponentOf a =
     (if 1 \<le> a then int (bitLength \<lfloor>a\<rfloor>) - 53
      else if a \<le> 0 then - 1074
      else - int (bitLength \<lfloor>1 / a\<rfloor>) - 52)"

text \<open>
  The double nearest to a rational, the even significand at a tie; below the smallest
  normal number the exponent stays at \<open>-1074\<close>, and from \<open>2^1024\<close> on the result
  is an infinity. Every operation of the language on numbers returns the exact
  result rounded so.
\<close>

definition roundDouble :: "rat \<Rightarrow> number" where
  "roundDouble x =
     (let a = \<bar>x\<bar>;
          e = max (exponentOf a) (- 1074);
          s = a / pow2 e;
          q = \<lfloor>s\<rfloor>;
          r = s - of_int q;
          m = (if 1 / 2 < r \<or> (r = 1 / 2 \<and> odd q) then q + 1 else q);
          y = of_int m * pow2 e
      in if pow2 1024 \<le> y then (if x < 0 then NegInf else PosInf)
         else Fin (if x < 0 then - y else y))"

fun numAdd :: "number \<Rightarrow> number \<Rightarrow> number" where
  "numAdd (Fin a) (Fin b) = roundDouble (a + b)"
| "numAdd NaN _ = NaN"
| "numAdd _ NaN = NaN"
| "numAdd PosInf NegInf = NaN"
| "numAdd NegInf PosInf = NaN"
| "numAdd PosInf _ = PosInf"
| "numAdd _ PosInf = PosInf"
| "numAdd NegInf _ = NegInf"
| "numAdd _ NegInf = NegInf"

definition infinityOf :: "bool \<Rightarrow> number" where
  "infinityOf negative = (if negative then NegInf else PosInf)"

fun numMul :: "number \<Rightarrow> number \<Rightarrow> number" where
  "numMul (Fin a) (Fin b) = roundDouble (a * b)"
| "numMul NaN _ = NaN"
| "numMul _ NaN = NaN"
| "numMul (Fin a) PosInf = (if a = 0 then NaN else infinityOf (a < 0))"
| "numMul (Fin a) NegInf = (if a = 0 then NaN else infinityOf (0 < a))"
| "numMul PosInf (Fin b) = (if b = 0 then NaN else infinityOf (b < 0))"
| "numMul NegInf (Fin b) = (if b = 0 then NaN else infinityOf (0 < b))"
| "numMul PosInf PosInf = PosInf"
| "numMul PosInf NegInf = NegInf"
| "numMul NegInf PosInf = NegInf"
| "numMul NegInf NegInf = PosInf"

subsection \<open>calculateTotalRevenue\<close>

definition revenueOrders :: "database \<Rightarrow> string \<Rightarrow> order list" where
  "revenueOrders db storeId =
     map (includeItemsWhere storeId) (filter (itemsSome storeId) (db_orders db))"

definition orderTotal :: "order \<Rightarrow> number" where
  "orderTotal ord =
     foldl (\<lambda>itemAcc item.
              numAdd itemAcc (numMul (ofInt (item_price item)) (ofInt (item_quantity item))))
       (ofInt 0) (order_items ord)"

definition calculateTotalRevenue :: "database \<Rightarrow> string \<Rightarrow> number" where
  "calculateTotalRevenue db storeId =
     foldl (\<lambda>acc ord. numAdd acc (orderTotal ord)) (ofInt 0) (revenueOrders db storeId)"

subsection \<open>countProducts, countCategories, calculateAverageRating\<close>

definition countProducts :: "database \<Rightarrow> string \<Rightarrow> nat" where
  "countProducts db storeId =
     length (filter (\<lambda>p. product_storeId p = storeId) (db_products db))"

definition countCategories :: "database \<Rightarrow> string \<Rightarrow> nat" where
  "countCategories db storeId =
     length (filter (\<lambda>c. category_storeId c = storeId) (db_categories db))"

text \<open>
  The \<open>_avg\<close> aggregate is null over no rows and the mean of the ratings otherwise; the
  store computes the mean, and it is kept exact here.
\<close>

definition avgRating :: "review list \<Rightarrow> number option" where
  "avgRating rs =
     (if rs = [] then None
      else Some (Fin (of_int (sum_list (map review_rating rs)) / of_nat (length rs))))"

definition calculateAverageRating :: "database \<Rightarrow> string \<Rightarrow> number option" where
  "calculateAverageRating db storeId =
     avgRating (filter (\<lambda>r. review_storeId r = storeId) (db_reviews db))"

subsection \<open>getMainStatistics\<close>

record metric =
  metric_id :: nat
  metric_name :: string
  metric_value :: number

text \<open>\<open>averageRating || 0\<close>: null, zero and not-a-number all give zero.\<close>

definition orZero :: "number option \<Rightarrow> number" where
  "orZero v =
     (case v of
        None \<Rightarrow> ofInt 0
      | Some NaN \<Rightarrow> ofInt 0
      | Some (Fin r) \<Rightarrow> (if r = 0 then ofInt 0 else Fin r)
      | Some infinity \<Rightarrow> infinity)"

definition getMainStatistics :: "database \<Rightarrow> string \<Rightarrow> metric list" where
  "getMainStatistics db storeId =
     (let totalRevenue = calculateTotalRevenue db storeId;
          productsCount = countProducts db storeId;
          categoriesCount = countCategories db storeId;
          averageRating = calculateAverageRating db storeId
      in [\<lparr>metric_id = 1, metric_name = ''Revenue'', metric_value = totalRevenue\<rparr>,
          \<lparr>metric_id = 2, metric_name = ''Products'', metric_value = ofInt (int productsCount)\<rparr>,
          \<lparr>metric_id = 3, metric_name = ''Categories'', metric_value = ofInt (int categoriesCount)\<rparr>,
          \<lparr>metric_id = 4, metric_name = ''Average rating'',
             metric_value = orZero averageRating\<rparr>])"

subsection \<open>Dates\<close>

definition msPerDay :: int where
  "msPerDay = 86400000"

definition dayOf :: "int \<Rightarrow> int" where
  "dayOf t = t div msPerDay"

definition startOfDay :: "int \<Rightarrow> int" where
  "startOfDay t = dayOf t * msPerDay"

definition endOfDay :: "int \<Rightarrow> int" where
  "endOfDay t = dayOf t * msPerDay + (msPerDay - 1)"

text \<open>
  The day of the year counted from the first of March, for a day counted from
  1 January 1970, in the proleptic Gregorian calendar; \<open>getDate\<close> and \<open>getMonth\<close> of
  the platform's date object read the day of the month (from 1) and the month (from 0) off it.
\<close>

definition dayOfMarchYear :: "int \<Rightarrow> int" where
  "dayOfMarchYear d =
     (let doe = (d + 719468) mod 146097;
          yoe = (doe - doe div 1460 + doe div 36524 - doe div 146096) div 365
      in doe - (365 * yoe + yoe div 4 - yoe div 100))"

definition getDate :: "int \<Rightarrow> nat" where
  "getDate t =
     (let doy = dayOfMarchYear (dayOf t); mp = (5 * doy + 2) div 153
      in nat (doy - (153 * mp + 2) div 5 + 1))"

definition getMonth :: "int \<Rightarrow> nat" where
  "getMonth t =
     (let doy = dayOfMarchYear (dayOf t); mp = (5 * doy + 2) div 153
      in nat (if mp < 10 then mp + 2 else mp - 10))"

definition monthNames :: "string list" where
  "monthNames = [''jan'', ''feb'', ''mar'', ''apr'', ''may'', ''jun'',
                 ''jul'', ''aug'', ''sep'', ''oct'', ''nov'', ''dec'']"

fun showNat :: "nat \<Rightarrow> string" where
  "showNat n =
     (if n < 10 then [char_of (48 + n)] else showNat (n div 10) @ [char_of (48 + n mod 10)])"

definition formatDate :: "int \<Rightarrow> string" where
  "formatDate date =
     showNat (getDate date) @ '' '' @
       (if getMonth date < length monthNames then monthNames ! getMonth date
        else ''undefined'')"

subsection \<open>calculateMonthlySales\<close>

record salesEntry =
  sale_date :: string
  sale_value :: number

text \<open>
  The query of the monthly sales: the orders created inside the window that hold an item of
  the store, each with all of its items (\<open>include: { items: true }\<close>).
\<close>

definition salesRaw :: "database \<Rightarrow> int \<Rightarrow> string \<Rightarrow> order list" where
  "salesRaw db now storeId =
     (let startDate = startOfDay (now - 30 * msPerDay);
          endDate = endOfDay now
      in filter (\<lambda>ord. startDate \<le> order_createdAt ord \<and> order_createdAt ord \<le> endDate
                       \<and> itemsSome storeId ord) (db_orders db))"

text \<open>
  One round of the \<open>forEach\<close>. The map keeps its keys in the order of their insertion, and
  setting a key it has keeps the key where it is: an association list under
  \<open>AList.update\<close>.
\<close>

definition addSale :: "(string \<times> number) list \<Rightarrow> order \<Rightarrow> (string \<times> number) list" where
  "addSale salesByDate ord =
     (let formattedDate = formatDate (order_createdAt ord);
          total = orderTotal ord
      in case map_of salesByDate formattedDate of
           Some v \<Rightarrow> AList.update formattedDate (numAdd v total) salesByDate
         | None \<Rightarrow> AList.update formattedDate total salesByDate)"

definition calculateMonthlySales :: "database \<Rightarrow> int \<Rightarrow> string \<Rightarrow> salesEntry list" where
  "calculateMonthlySales db now storeId =
     map (\<lambda>(date, v). \<lparr>sale_date = date, sale_value = v\<rparr>)
       (foldl addSale [] (salesRaw db now storeId))"

subsection \<open>getLastUsers\<close>

datatype error = TypeError | NotFoundException string | UniqueConstraintViolation

record userWithOrders =
  uo_user :: user
  uo_orders :: "order list"

record lastUser =
  lu_id :: string
  lu_name :: string
  lu_email :: string
  lu_picture :: string
  lu_total :: number

text \<open>\<open>orders: { some: { items: { some: { storeId } } } }\<close> and the matching include.\<close>

definition storeOrdersOf :: "database \<Rightarrow> string \<Rightarrow> user \<Rightarrow> order list" where
  "storeOrdersOf db storeId u =
     filter (\<lambda>ord. order_userId ord = user_id u \<and> itemsSome storeId ord) (db_orders db)"

definition ordersSome :: "database \<Rightarrow> string \<Rightarrow> user \<Rightarrow> bool" where
  "ordersSome db storeId u =
     list_ex (\<lambda>ord. order_userId ord = user_id u \<and> itemsSome storeId ord) (db_orders db)"

text \<open>
  The users with an order of the store, newest registration first, five at most (users of
  equal registration time stay in table order).
\<close>

definition lastUsersRows :: "database \<Rightarrow> string \<Rightarrow> user list" where
  "lastUsersRows db storeId =
     take 5 (sort_key (\<lambda>u. - user_createdAt u) (filter (ordersSome db storeId) (db_users db)))"

text \<open>
  Each of them with its orders of the store, each order with its items of the store. The
  query selects the price of an item only; the callback below reads nothing else of it.
\<close>

definition lastUsersQuery :: "database \<Rightarrow> string \<Rightarrow> userWithOrders list" where
  "lastUsersQuery db storeId =
     map (\<lambda>u. \<lparr>uo_user = u,
               uo_orders = map (includeItemsWhere storeId) (storeOrdersOf db storeId u)\<rparr>)
       (lastUsersRows db storeId)"

text \<open>
  The body of the \<open>map\<close> callback. Of no orders, \<open>user.orders[user.orders.length - 1]\<close> is
  undefined and reading its items throws.
\<close>

definition lastUserEntry :: "userWithOrders \<Rightarrow> error + lastUser" where
  "lastUserEntry u =
     (if uo_orders u = [] then Inl TypeError
      else
        let lastOrder = uo_orders u ! (length (uo_orders u) - 1);
            total = foldl (\<lambda>total item. numAdd total (ofInt (item_price item))) (ofInt 0)
                      (order_items lastOrder)
        in Inr \<lparr>lu_id = user_id (uo_user u), lu_name = user_name (uo_user u),
                lu_email = user_email (uo_user u), lu_picture = user_picture (uo_user u),
                lu_total = total\<rparr>)"

fun mapUsers :: "userWithOrders list \<Rightarrow> error + lastUser list" where
  "mapUsers [] = Inr []"
| "mapUsers (u # us) =
     (case lastUserEntry u of
        Inl e \<Rightarrow> Inl e
      | Inr r \<Rightarrow> (case mapUsers us of Inl e \<Rightarrow> Inl e | Inr rs \<Rightarrow> Inr (r # rs)))"

definition getLastUsers :: "database \<Rightarrow> string \<Rightarrow> error + lastUser list" where
  "getLastUsers db storeId = mapUsers (lastUsersQuery db storeId)"

subsection \<open>getMiddleStatistics\<close>

record middleStatistics =
  monthlySales :: "salesEntry list"
  lastUsers :: "lastUser list"

definition getMiddleStatistics :: "database \<Rightarrow> int \<Rightarrow> string \<Rightarrow> error + middleStatistics" where
  "getMiddleStatistics db now storeId =
     (let sales = calculateMonthlySales db now storeId
      in case getLastUsers db storeId of
           Inl e \<Rightarrow> Inl e
         | Inr us \<Rightarrow> Inr \<lparr>monthlySales = sales, lastUsers = us\<rparr>)"

section \<open>Category service\<close>

text \<open>
  Every operation returns its outcome together with the database it leaves behind, so that
  a failing call shows what it has written before failing.
\<close>

definition findUnique :: "database \<Rightarrow> string \<Rightarrow> category option" where
  "findUnique db cid = find (\<lambda>c. category_id c = cid) (db_categories db)"

definition getManyByStoreId :: "database \<Rightarrow> string \<Rightarrow> category list" where
  "getManyByStoreId db storeId = filter (\<lambda>c. category_storeId c = storeId) (db_categories db)"

definition getById :: "database \<Rightarrow> string \<Rightarrow> (error + category) \<times> database" where
  "getById db cid =
     (case findUnique db cid of
        None \<Rightarrow> (Inl (NotFoundException ''Category not found''), db)
      | Some category \<Rightarrow> (Inr category, db))"

text \<open>
  The id is the unique key of the table: \<open>findUnique\<close> looks a row up by it, and the store
  refuses a write that would give two rows one id.
\<close>

definition idTaken :: "database \<Rightarrow> string \<Rightarrow> bool" where
  "idTaken db cid = list_ex (\<lambda>c. category_id c = cid) (db_categories db)"

text \<open>
  \<open>data: { ...dto, storeId }\<close>: the columns the dto carries, the store key of the call over
  the dto's own. The store gives a row without an id a new one; \<open>newId\<close> stands for it.
\<close>

definition create :: "string \<Rightarrow> database \<Rightarrow> string \<Rightarrow> categoryDto \<Rightarrow> (error + category) \<times> database" where
  "create newId db storeId dto =
     (let row = \<lparr>category_id = (case dto_id dto of None \<Rightarrow> newId | Some i \<Rightarrow> i),
                 category_storeId = storeId,
                 category_name = dto_name dto, category_slug = dto_slug dto\<rparr>
      in if idTaken db (category_id row) then (Inl UniqueConstraintViolation, db)
         else (Inr row, db\<lparr>db_categories := db_categories db @ [row]\<rparr>))"

text \<open>\<open>data: dto\<close>: every column the dto carries is overwritten, the others stay.\<close>

definition applyDto :: "categoryDto \<Rightarrow> category \<Rightarrow> category" where
  "applyDto dto c =
     \<lparr>category_id = (case dto_id dto of None \<Rightarrow> category_id c | Some i \<Rightarrow> i),
      category_storeId = (case dto_storeId dto of None \<Rightarrow> category_storeId c | Some s \<Rightarrow> s),
      category_name = dto_name dto,
      category_slug = dto_slug dto\<rparr>"

definition update :: "database \<Rightarrow> string \<Rightarrow> categoryDto \<Rightarrow> (error + category) \<times> database" where
  "update db cid dto =
     (case getById db cid of
        (Inl e, db1) \<Rightarrow> (Inl e, db1)
      | (Inr found, db1) \<Rightarrow>
          (let written = applyDto dto found
           in if category_id written \<noteq> cid \<and> idTaken db1 (category_id written)
              then (Inl UniqueConstraintViolation, db1)
              else (Inr written,
                    db1\<lparr>db_categories :=
                          map (\<lambda>c. if category_id c = cid then applyDto dto c else c)
                            (db_categories db1)\<rparr>)))"

definition delete :: "database \<Rightarrow> string \<Rightarrow> (error + category) \<times> database" where
  "delete db cid =
     (case getById db cid of
        (Inl e, db1) \<Rightarrow> (Inl e, db1)
      | (Inr found, db1) \<Rightarrow>
          (Inr found,
           db1\<lparr>db_categories := filter (\<lambda>c. category_id c \<noteq> cid) (db_categories db1)\<rparr>))"

section \<open>Specification-side notions and worked inputs\<close>

definition lineValue :: "orderItem \<Rightarrow> int" where
  "lineValue item = item_price item * item_quantity item"

text \<open>The sum the specification asks of every monetary aggregate: the store's items only.\<close>

definition storeValue :: "string \<Rightarrow> order list \<Rightarrow> int" where
  "storeValue storeId os =
     sum_list (map lineValue
       (filter (\<lambda>item. item_storeId item = storeId) (concat (map order_items os))))"


text \<open>
  The example of the specification: store \<open>S\<close>, order A with an item of \<open>S\<close> (10, twice) and
  an item of another store (5, once), order B with an item of \<open>S\<close> (3, once), both placed
  today, 3 November 2026.
\<close>

definition exampleNow :: int where
  "exampleNow = 20760 * 86400000 + 43200000"

definition orderA :: order where
  "orderA = \<lparr>order_id = ''A'', order_createdAt = 20760 * 86400000 + 3600000,
             order_userId = ''u1'',
             order_items = [\<lparr>item_price = 10, item_quantity = 2, item_storeId = ''S''\<rparr>,
                            \<lparr>item_price = 5, item_quantity = 1, item_storeId = ''T''\<rparr>]\<rparr>"

definition orderB :: order where
  "orderB = \<lparr>order_id = ''B'', order_createdAt = 20760 * 86400000 + 7200000,
             order_userId = ''u1'',
             order_items = [\<lparr>item_price = 3, item_quantity = 1, item_storeId = ''S''\<rparr>]\<rparr>"

definition user1 :: user where
  "user1 = \<lparr>user_id = ''u1'', user_name = ''Ann'', user_email = ''ann@example.org'',
            user_picture = ''ann.png'', user_createdAt = 1000\<rparr>"

definition user2 :: user where
  "user2 = \<lparr>user_id = ''u2'', user_name = ''Bob'', user_email = ''bob@example.org'',
            user_picture = ''bob.png'', user_createdAt = 2000\<rparr>"

definition shoes :: category where
  "shoes = \<lparr>category_id = ''c1'', category_storeId = ''S'',
            category_name = ''Shoes'', category_slug = ''shoes''\<rparr>"

definition hats :: category where
  "hats = \<lparr>category_id = ''c2'', category_storeId = ''S'',
           category_name = ''Hats'', category_slug = ''hats''\<rparr>"

definition exampleDb :: database where
  "exampleDb = \<lparr>db_orders = [orderA, orderB], db_users = [user1, user2],
                db_products = [\<lparr>product_id = ''p1'', product_storeId = ''S''\<rparr>],
                db_reviews = [\<lparr>review_rating = 4, review_storeId = ''T''\<rparr>],
                db_categories = [shoes, hats]\<rparr>"

text \<open>A user whose only order holds one item of store \<open>S\<close>, priced 10, bought twice.\<close>

definition pairOrder :: order where
  "pairOrder = \<lparr>order_id = ''P'', order_createdAt = 20760 * 86400000,
                order_userId = ''u2'',
                order_items = [\<lparr>item_price = 10, item_quantity = 2, item_storeId = ''S''\<rparr>]\<rparr>"

definition pairDb :: database where
  "pairDb = \<lparr>db_orders = [pairOrder], db_users = [user2],
             db_products = [], db_reviews = [], db_categories = []\<rparr>"

text \<open>Six users, registered one after the other, each with one order of store \<open>S\<close>.\<close>

definition mkUser :: "nat \<Rightarrow> user" where
  "mkUser n = \<lparr>user_id = showNat n, user_name = ''user'', user_email = ''user@example.org'',
               user_picture = ''user.png'', user_createdAt = int n\<rparr>"

definition mkOrder :: "nat \<Rightarrow> order" where
  "mkOrder n = \<lparr>order_id = showNat n, order_createdAt = 20760 * 86400000,
                order_userId = showNat n,
                order_items = [\<lparr>item_price = 7, item_quantity = 1, item_storeId = ''S''\<rparr>]\<rparr>"

definition crowdDb :: database where
  "crowdDb = \<lparr>db_orders = map mkOrder [1, 2, 3, 4, 5, 6], db_users = map mkUser [1, 2, 3, 4, 5, 6],
              db_products = [], db_reviews = [], db_categories = []\<rparr>"

text \<open>A user record that came without any order.\<close>

definition orderlessUser :: userWithOrders where
  "orderlessUser = \<lparr>uo_user = user1, uo_orders = []\<rparr>"

text \<open>A dto of the declared shape, one that also carries a store key, one that carries an id.\<close>

definition sandalsDto :: categoryDto where
  "sandalsDto = \<lparr>dto_name = ''Sandals'', dto_slug = ''sandals'',
                 dto_id = None, dto_storeId = None\<rparr>"

definition movingDto :: categoryDto where
  "movingDto = \<lparr>dto_name = ''Sandals'', dto_slug = ''sandals'',
                dto_id = None, dto_storeId = Some ''T''\<rparr>"

definition clashingDto :: categoryDto where
  "clashingDto = \<lparr>dto_name = ''Sandals'', dto_slug = ''sandals'',
                  dto_id = Some ''c2'', dto_storeId = None\<rparr>"



section \<open>Properties\<close>

subsection \<open>Numbers that are exact\<close>

lemma pow2_nonpos: "e \<le> 0 \<Longrightarrow> pow2 e = 1 / 2 ^ nat (- e)"
  by (cases "e = 0") (simp_all add: pow2_def)

lemma bitLength_le: "0 \<le> n \<Longrightarrow> n < 2 ^ k \<Longrightarrow> bitLength n \<le> k"
proof (induction k arbitrary: n)
  case 0
  then have "n = 0" by simp
  then show ?case by (subst bitLength.simps) simp
next
  case (Suc k)
  show ?case
  proof (cases "n \<le> 0")
    case True
    then show ?thesis by (subst bitLength.simps) simp
  next
    case False
    have "n div 2 < 2 ^ k" using Suc.prems by simp
    moreover have "0 \<le> n div 2" using Suc.prems by simp
    ultimately have "bitLength (n div 2) \<le> k" by (rule Suc.IH [rotated])
    then show ?thesis using False by (subst bitLength.simps) simp
  qed
qed

text \<open>An integer below \<open>2^53\<close> in magnitude is a double, and rounding leaves it alone.\<close>

lemma roundDouble_exact:
  assumes "\<bar>i\<bar> < 2 ^ 53"
  shows "roundDouble (of_int i) = Fin (of_int i)"
proof -
  define a :: rat where "a = \<bar>of_int i\<bar>"
  define e where "e = max (exponentOf a) (- 1074)"
  have a: "a = of_int \<bar>i\<bar>" by (simp add: a_def)
  have fa: "\<lfloor>a\<rfloor> = \<bar>i\<bar>" unfolding a by (rule floor_of_int)
  have e: "e \<le> 0"
  proof (cases "1 \<le> a")
    case True
    have "bitLength \<bar>i\<bar> \<le> 53" using assms by (intro bitLength_le) simp_all
    then show ?thesis using True by (simp add: e_def exponentOf_def fa)
  next
    case False
    then show ?thesis by (simp add: e_def exponentOf_def)
  qed
  define k where "k = nat (- e)"
  have p: "pow2 e = 1 / 2 ^ k" using e by (simp add: pow2_nonpos k_def)
  have s: "a / pow2 e = of_int (\<bar>i\<bar> * 2 ^ k)" by (simp add: p a)
  have y: "of_int (\<bar>i\<bar> * 2 ^ k) * pow2 e = a" by (simp add: p a)
  have "(2::int) ^ 53 \<le> 2 ^ 1024" by (rule power_increasing) simp_all
  then have "\<bar>i\<bar> < 2 ^ 1024" using assms by linarith
  then have "a < 2 ^ 1024" unfolding a by (simp only: of_int_less_numeral_power_cancel_iff)
  moreover have "pow2 1024 = 2 ^ 1024" unfolding pow2_def by (simp del: power_numeral)
  ultimately have lt: "\<not> pow2 1024 \<le> a" by (simp only: not_le)
  have fl: "\<lfloor>(of_int (\<bar>i\<bar> * 2 ^ k) :: rat)\<rfloor> = \<bar>i\<bar> * 2 ^ k" by (rule floor_of_int)
  have m: "(if 1 / 2 < (of_int (\<bar>i\<bar> * 2 ^ k) - of_int (\<bar>i\<bar> * 2 ^ k) :: rat)
          \<or> ((of_int (\<bar>i\<bar> * 2 ^ k) - of_int (\<bar>i\<bar> * 2 ^ k) :: rat) = 1 / 2
              \<and> odd (\<bar>i\<bar> * 2 ^ k))
        then \<bar>i\<bar> * 2 ^ k + 1 else \<bar>i\<bar> * 2 ^ k) = \<bar>i\<bar> * 2 ^ k"
    by simp
  have "roundDouble (of_int i) = Fin (if (of_int i :: rat) < 0 then - a else a)"
    unfolding roundDouble_def Let_def a_def [symmetric] e_def [symmetric]
    by (simp only: s fl m y lt if_False)
  also have "(if (of_int i :: rat) < 0 then - a else a) = of_int i"
    by (simp add: a_def)
  finally show ?thesis .
qed

text \<open>The same fact as an equation for evaluation: exact integers are not rounded again.\<close>

lemma roundDouble_code [code]:
  "roundDouble x =
     (if x = of_int \<lfloor>x\<rfloor> \<and> \<bar>\<lfloor>x\<rfloor>\<bar> < 9007199254740992 then Fin x
      else
       (let a = \<bar>x\<bar>;
          e = max (exponentOf a) (- 1074);
          s = a / pow2 e;
          q = \<lfloor>s\<rfloor>;
          r = s - of_int q;
          m = (if 1 / 2 < r \<or> (r = 1 / 2 \<and> odd q) then q + 1 else q);
          y = of_int m * pow2 e
      in if pow2 1024 \<le> y then (if x < 0 then NegInf else PosInf)
         else Fin (if x < 0 then - y else y)))"
proof (cases "x = of_int \<lfloor>x\<rfloor> \<and> \<bar>\<lfloor>x\<rfloor>\<bar> < 9007199254740992")
  case True
  then have "roundDouble (of_int \<lfloor>x\<rfloor>) = Fin (of_int \<lfloor>x\<rfloor>)"
    by (intro roundDouble_exact) simp
  then show ?thesis using True by simp
next
  case False
  then show ?thesis unfolding roundDouble_def by (simp only: if_False)
qed




subsection \<open>Reductions as sums\<close>











subsection \<open>Total revenue\<close>





subsection \<open>The window of days and the map of sales\<close>

lemma msPerDay_pos: "0 < msPerDay" by (simp add: msPerDay_def)

lemma startOfDay_le_iff: "startOfDay s \<le> t \<longleftrightarrow> dayOf s \<le> dayOf t"
proof
  assume "startOfDay s \<le> t"
  then have "(dayOf s * msPerDay) div msPerDay \<le> t div msPerDay"
    unfolding startOfDay_def by (rule zdiv_mono1) (rule msPerDay_pos)
  then show "dayOf s \<le> dayOf t" using msPerDay_pos by (simp add: dayOf_def)
next
  assume "dayOf s \<le> dayOf t"
  then have "dayOf s * msPerDay \<le> dayOf t * msPerDay"
    using msPerDay_pos by (simp add: mult_right_mono)
  also have "\<dots> \<le> t"
    unfolding dayOf_def using msPerDay_pos
    by (metis div_mult_mod_eq le_add_same_cancel1 pos_mod_sign)
  finally show "startOfDay s \<le> t" by (simp add: startOfDay_def)
qed

lemma le_endOfDay_iff: "t \<le> endOfDay s \<longleftrightarrow> dayOf t \<le> dayOf s"
proof
  assume "t \<le> endOfDay s"
  then have "t div msPerDay \<le> (dayOf s * msPerDay + (msPerDay - 1)) div msPerDay"
    unfolding endOfDay_def by (rule zdiv_mono1) (rule msPerDay_pos)
  also have "\<dots> = dayOf s"
    using msPerDay_pos by (simp add: div_pos_pos_trivial)
  finally show "dayOf t \<le> dayOf s" by (simp add: dayOf_def)
next
  assume a: "dayOf t \<le> dayOf s"
  have "t = dayOf t * msPerDay + t mod msPerDay" by (simp add: dayOf_def)
  moreover have "t mod msPerDay \<le> msPerDay - 1"
    using msPerDay_pos pos_mod_bound [of msPerDay t] by simp
  moreover have "dayOf t * msPerDay \<le> dayOf s * msPerDay"
    using a msPerDay_pos by (simp add: mult_right_mono)
  ultimately show "t \<le> endOfDay s" unfolding endOfDay_def by linarith
qed

lemma dayOf_minus_days: "dayOf (t - n * msPerDay) = dayOf t - n"
proof -
  have "t - n * msPerDay = (- n) * msPerDay + t" by simp
  then have "(t - n * msPerDay) div msPerDay = - n + t div msPerDay"
    using msPerDay_pos div_mult_self3 [of msPerDay "- n" t] by simp
  then show ?thesis by (simp add: dayOf_def)
qed

lemma salesRaw_member:
  "ord \<in> set (salesRaw db now storeId) \<longleftrightarrow>
     ord \<in> set (db_orders db) \<and> itemsSome storeId ord
     \<and> dayOf now - 30 \<le> dayOf (order_createdAt ord) \<and> dayOf (order_createdAt ord) \<le> dayOf now"
  unfolding salesRaw_def Let_def
  by (auto simp: startOfDay_le_iff le_endOfDay_iff dayOf_minus_days)

lemma addSale_keys:
  "fst ` set (addSale m ord) = insert (formatDate (order_createdAt ord)) (fst ` set m)"
  unfolding addSale_def Let_def by (simp add: dom_update split: option.split)

lemma foldl_addSale_keys:
  "fst ` set (foldl addSale m os) = fst ` set m \<union> (\<lambda>ord. formatDate (order_createdAt ord)) ` set os"
  by (induction os arbitrary: m) (auto simp: addSale_keys)

lemma addSale_distinct: "distinct (map fst m) \<Longrightarrow> distinct (map fst (addSale m ord))"
  unfolding addSale_def Let_def by (simp add: distinct_update split: option.split)

lemma foldl_addSale_distinct:
  "distinct (map fst m) \<Longrightarrow> distinct (map fst (foldl addSale m os))"
  by (induction os arbitrary: m) (simp_all add: addSale_distinct)

lemma monthlySales_dates:
  "map sale_date (calculateMonthlySales db now storeId)
     = map fst (foldl addSale [] (salesRaw db now storeId))"
  unfolding calculateMonthlySales_def by (simp add: comp_def case_prod_unfold)

subsection \<open>Daily sales series\<close>

text \<open>
  Claim C7. Every entry of the daily sales series is labelled with the calendar day of an
  order that holds an item of the store and was placed no earlier than the day thirty days
  before today and no later than today; so an entry stands for a day inside the window, and
  is there only when such an order was placed on that day. No label occurs twice.
\<close>

theorem monthlySales_days_in_window:
  "(\<forall>e \<in> set (calculateMonthlySales db now storeId).
      \<exists>ord \<in> set (db_orders db).
        itemsSome storeId ord
        \<and> dayOf now - 30 \<le> dayOf (order_createdAt ord)
        \<and> dayOf (order_createdAt ord) \<le> dayOf now
        \<and> sale_date e = formatDate (order_createdAt ord))
   \<and> distinct (map sale_date (calculateMonthlySales db now storeId))"
proof (intro conjI ballI)
  fix e assume "e \<in> set (calculateMonthlySales db now storeId)"
  then have "sale_date e \<in> set (map sale_date (calculateMonthlySales db now storeId))"
    by simp
  then have "sale_date e \<in> fst ` set (foldl addSale [] (salesRaw db now storeId))"
    by (simp add: monthlySales_dates)
  then obtain ord where "ord \<in> set (salesRaw db now storeId)"
      and "sale_date e = formatDate (order_createdAt ord)"
    by (auto simp: foldl_addSale_keys)
  then show "\<exists>ord \<in> set (db_orders db).
        itemsSome storeId ord
        \<and> dayOf now - 30 \<le> dayOf (order_createdAt ord)
        \<and> dayOf (order_createdAt ord) \<le> dayOf now
        \<and> sale_date e = formatDate (order_createdAt ord)"
    by (auto simp: salesRaw_member)
next
  show "distinct (map sale_date (calculateMonthlySales db now storeId))"
    by (simp add: monthlySales_dates foldl_addSale_distinct)
qed

theorem monthlySales_days_in_window_witness:
  "\<lparr>sale_date = ''3 nov'', sale_value = Fin 28\<rparr>
     \<in> set (calculateMonthlySales exampleDb exampleNow ''S'')
   \<and> (\<exists>ord \<in> set (db_orders exampleDb).
        itemsSome ''S'' ord
        \<and> dayOf exampleNow - 30 \<le> dayOf (order_createdAt ord)
        \<and> dayOf (order_createdAt ord) \<le> dayOf exampleNow
        \<and> ''3 nov'' = formatDate (order_createdAt ord))"
proof -
  have h: "\<lparr>sale_date = ''3 nov'', sale_value = Fin 28\<rparr>
     \<in> set (calculateMonthlySales exampleDb exampleNow ''S'')"
    by code_simp
  from monthlySales_days_in_window [of exampleDb exampleNow "''S''",
      THEN conjunct1, rule_format, OF h]
  show ?thesis using h by simp
qed

text \<open>
  Claim C1, at the example of the specification. The query of the daily sales includes every
  item of a matching order, so today's entry counts the other store's item as well: it is
  28, where the store's own items are worth 23.
\<close>

theorem monthlySales_counts_foreign_items:
  "calculateMonthlySales exampleDb exampleNow ''S''
     = [\<lparr>sale_date = ''3 nov'', sale_value = Fin 28\<rparr>]
   \<and> storeValue ''S'' (db_orders exampleDb) = 23
   \<and> calculateTotalRevenue exampleDb ''S'' = Fin 23"
  by code_simp

subsection \<open>Last users\<close>

text \<open>
  Claim C3, at a user whose last order holds one item of the store, priced 10 and bought
  twice. The total of the entry adds the prices and leaves the quantities out: it is 10,
  where price times quantity is 20.
\<close>

theorem lastUsers_total_ignores_quantity:
  "getLastUsers pairDb ''S''
     = Inr [\<lparr>lu_id = ''u2'', lu_name = ''Bob'', lu_email = ''bob@example.org'',
              lu_picture = ''bob.png'', lu_total = Fin 10\<rparr>]
   \<and> storeValue ''S'' [pairOrder] = 20"
  by code_simp

lemma ordersSome_iff: "ordersSome db storeId u \<longleftrightarrow> storeOrdersOf db storeId u \<noteq> []"
  unfolding ordersSome_def storeOrdersOf_def by (simp add: list_ex_iff filter_empty_conv)

lemma lastUsersQuery_users:
  "map uo_user (lastUsersQuery db storeId) = lastUsersRows db storeId"
  unfolding lastUsersQuery_def lastUsersRows_def by (simp add: comp_def)

lemma lastUsersRows_subset:
  "set (lastUsersRows db storeId) \<subseteq> {u \<in> set (db_users db). ordersSome db storeId u}"
  unfolding lastUsersRows_def using set_take_subset [of 5] by fastforce

lemma lastUsersRows_desc:
  "sorted_wrt (\<lambda>u v. user_createdAt u \<ge> user_createdAt v) (lastUsersRows db storeId)"
proof -
  let ?xs = "sort_key (\<lambda>u. - user_createdAt u) (filter (ordersSome db storeId) (db_users db))"
  have "sorted (map (\<lambda>u. - user_createdAt u) ?xs)" by (rule sorted_sort_key)
  then have "sorted_wrt (\<lambda>u v. user_createdAt u \<ge> user_createdAt v) ?xs"
    by (simp add: sorted_map)
  then show ?thesis unfolding lastUsersRows_def by (rule sorted_wrt_take)
qed

lemma lastUsersRows_newest:
  assumes v: "v \<in> set (db_users db)" "ordersSome db storeId v"
    and out: "v \<notin> set (lastUsersRows db storeId)"
    and u: "u \<in> set (lastUsersRows db storeId)"
  shows "user_createdAt v \<le> user_createdAt u"
proof -
  let ?xs = "sort_key (\<lambda>u. - user_createdAt u) (filter (ordersSome db storeId) (db_users db))"
  have "sorted (map (\<lambda>u. - user_createdAt u) ?xs)" by (rule sorted_sort_key)
  then have "sorted_wrt (\<lambda>u v. user_createdAt u \<ge> user_createdAt v) (take 5 ?xs @ drop 5 ?xs)"
    by (simp add: sorted_map)
  then have *: "\<forall>a \<in> set (take 5 ?xs). \<forall>b \<in> set (drop 5 ?xs). user_createdAt b \<le> user_createdAt a"
    unfolding sorted_wrt_append by blast
  have "v \<in> set (take 5 ?xs @ drop 5 ?xs)" using v by simp
  then have "v \<in> set (drop 5 ?xs)"
    using out unfolding lastUsersRows_def set_append by blast
  then show ?thesis using * u unfolding lastUsersRows_def by blast
qed

lemma lastUsersQuery_orders:
  "q \<in> set (lastUsersQuery db storeId) \<Longrightarrow>
     uo_user q \<in> set (lastUsersRows db storeId)
     \<and> uo_orders q = map (includeItemsWhere storeId) (storeOrdersOf db storeId (uo_user q))"
  unfolding lastUsersQuery_def lastUsersRows_def by auto

lemma lastUsersQuery_nonempty:
  assumes "q \<in> set (lastUsersQuery db storeId)"
  shows "uo_orders q \<noteq> []"
proof -
  from assms have "uo_user q \<in> set (lastUsersRows db storeId)"
    and o: "uo_orders q = map (includeItemsWhere storeId) (storeOrdersOf db storeId (uo_user q))"
    by (simp_all add: lastUsersQuery_orders)
  then have "ordersSome db storeId (uo_user q)" using lastUsersRows_subset by blast
  then show ?thesis using o by (simp add: ordersSome_iff)
qed

lemma lastUserEntry_error: "lastUserEntry u = Inl e \<Longrightarrow> e = TypeError \<and> uo_orders u = []"
  unfolding lastUserEntry_def Let_def by (simp split: if_splits)

lemma lastUserEntry_id: "lastUserEntry u = Inr r \<Longrightarrow> lu_id r = user_id (uo_user u)"
  unfolding lastUserEntry_def Let_def by (auto split: if_splits)

lemma lastUserEntry_fields:
  "lastUserEntry u = Inr r \<Longrightarrow>
     lu_name r = user_name (uo_user u) \<and> lu_email r = user_email (uo_user u)
     \<and> lu_picture r = user_picture (uo_user u)"
  unfolding lastUserEntry_def Let_def by (auto split: if_splits)

lemma mapUsers_fields:
  "mapUsers us = Inr rs \<Longrightarrow>
     map lu_name rs = map (\<lambda>u. user_name (uo_user u)) us
     \<and> map lu_email rs = map (\<lambda>u. user_email (uo_user u)) us
     \<and> map lu_picture rs = map (\<lambda>u. user_picture (uo_user u)) us"
proof (induction us arbitrary: rs)
  case Nil
  then show ?case by simp
next
  case (Cons u us)
  then obtain r rs' where r: "lastUserEntry u = Inr r" and rs': "mapUsers us = Inr rs'"
    and rs: "rs = r # rs'"
    by (auto split: sum.splits)
  from Cons.IH [OF rs'] lastUserEntry_fields [OF r] show ?case by (simp add: rs)
qed

lemma getLastUsers_fields:
  assumes "getLastUsers db storeId = Inr rs"
  shows "map lu_name rs = map user_name (lastUsersRows db storeId)
     \<and> map lu_email rs = map user_email (lastUsersRows db storeId)
     \<and> map lu_picture rs = map user_picture (lastUsersRows db storeId)"
proof -
  have "map (\<lambda>u. f (uo_user u)) (lastUsersQuery db storeId) = map f (lastUsersRows db storeId)"
    for f :: "user \<Rightarrow> string"
    unfolding lastUsersQuery_def by (simp add: comp_def)
  then show ?thesis using mapUsers_fields [of "lastUsersQuery db storeId" rs] assms
    unfolding getLastUsers_def by simp
qed

lemma mapUsers_ok:
  "\<forall>u \<in> set us. uo_orders u \<noteq> [] \<Longrightarrow>
     \<exists>rs. mapUsers us = Inr rs \<and> map lu_id rs = map (\<lambda>u. user_id (uo_user u)) us"
proof (induction us)
  case Nil
  then show ?case by simp
next
  case (Cons u us)
  then obtain rs where rs: "mapUsers us = Inr rs" "map lu_id rs = map (\<lambda>u. user_id (uo_user u)) us"
    by auto
  from Cons.prems have "uo_orders u \<noteq> []" by simp
  then obtain r where r: "lastUserEntry u = Inr r"
    using lastUserEntry_error [of u] by (cases "lastUserEntry u") auto
  then show ?case using rs by (simp add: lastUserEntry_id)
qed

lemma mapUsers_throws:
  "u \<in> set us \<Longrightarrow> uo_orders u = [] \<Longrightarrow> mapUsers us = Inl TypeError"
proof (induction us)
  case Nil
  then show ?case by simp
next
  case (Cons a us)
  show ?case
  proof (cases "lastUserEntry a")
    case (Inl e)
    then show ?thesis using lastUserEntry_error [of a e] by simp
  next
    case (Inr r)
    then have "uo_orders a \<noteq> []" unfolding lastUserEntry_def by (auto split: if_splits)
    then have "u \<in> set us" using Cons.prems by auto
    then have "mapUsers us = Inl TypeError" using Cons by simp
    then show ?thesis using Inr by simp
  qed
qed

lemma getLastUsers_ok:
  "\<exists>rs. getLastUsers db storeId = Inr rs
        \<and> map lu_id rs = map user_id (lastUsersRows db storeId)"
proof -
  have "\<forall>q \<in> set (lastUsersQuery db storeId). uo_orders q \<noteq> []"
    by (simp add: lastUsersQuery_nonempty)
  from mapUsers_ok [OF this] obtain rs where "mapUsers (lastUsersQuery db storeId) = Inr rs"
    and "map lu_id rs = map (\<lambda>u. user_id (uo_user u)) (lastUsersQuery db storeId)" by blast
  moreover have "map (\<lambda>u. user_id (uo_user u)) (lastUsersQuery db storeId)
      = map user_id (map uo_user (lastUsersQuery db storeId))" by (simp add: comp_def)
  ultimately show ?thesis unfolding getLastUsers_def by (simp add: lastUsersQuery_users)
qed

text \<open>
  Claim C5. The query behind the last users returns five users at most (all of them when
  fewer qualify); each is a user of the table with an order that holds an item of the store;
  they come in descending order of registration time; a qualifying user who is left out
  registered no later than any user returned; and the entries of the answer are made from
  these users, one each, in this order. The trends are always returned, and their last
  users are these entries: as many as the query has rows, each with the id, name, email and
  picture of its user.
\<close>

theorem lastUsers_five_newest:
  "length (lastUsersRows db storeId)
     = min 5 (length (filter (ordersSome db storeId) (db_users db)))
   \<and> (\<forall>u \<in> set (lastUsersRows db storeId).
        u \<in> set (db_users db)
        \<and> (\<exists>ord \<in> set (db_orders db). order_userId ord = user_id u \<and> itemsSome storeId ord))
   \<and> sorted_wrt (\<lambda>u v. user_createdAt u \<ge> user_createdAt v) (lastUsersRows db storeId)
   \<and> (\<forall>v \<in> set (db_users db).
        (\<exists>ord \<in> set (db_orders db). order_userId ord = user_id v \<and> itemsSome storeId ord)
        \<longrightarrow> v \<notin> set (lastUsersRows db storeId)
        \<longrightarrow> (\<forall>u \<in> set (lastUsersRows db storeId). user_createdAt v \<le> user_createdAt u))
   \<and> (\<exists>rs. getLastUsers db storeId = Inr rs
          \<and> map lu_id rs = map user_id (lastUsersRows db storeId))
   \<and> (\<exists>r. getMiddleStatistics db now storeId = Inr r
          \<and> getLastUsers db storeId = Inr (lastUsers r)
          \<and> length (lastUsers r) = length (lastUsersRows db storeId)
          \<and> length (lastUsers r) \<le> 5
          \<and> map lu_id (lastUsers r) = map user_id (lastUsersRows db storeId)
          \<and> map lu_name (lastUsers r) = map user_name (lastUsersRows db storeId)
          \<and> map lu_email (lastUsers r) = map user_email (lastUsersRows db storeId)
          \<and> map lu_picture (lastUsers r) = map user_picture (lastUsersRows db storeId))"
proof -
  have some: "ordersSome db storeId u \<longleftrightarrow>
      (\<exists>ord \<in> set (db_orders db). order_userId ord = user_id u \<and> itemsSome storeId ord)" for u
    unfolding ordersSome_def by (simp add: list_ex_iff)
  have "length (lastUsersRows db storeId)
     = min 5 (length (filter (ordersSome db storeId) (db_users db)))"
    unfolding lastUsersRows_def by (simp add: min.commute)
  moreover have "\<forall>u \<in> set (lastUsersRows db storeId).
        u \<in> set (db_users db)
        \<and> (\<exists>ord \<in> set (db_orders db). order_userId ord = user_id u \<and> itemsSome storeId ord)"
    using lastUsersRows_subset [of db storeId] some by blast
  moreover note lastUsersRows_desc [of db storeId]
  moreover have "\<forall>v \<in> set (db_users db).
        (\<exists>ord \<in> set (db_orders db). order_userId ord = user_id v \<and> itemsSome storeId ord)
        \<longrightarrow> v \<notin> set (lastUsersRows db storeId)
        \<longrightarrow> (\<forall>u \<in> set (lastUsersRows db storeId). user_createdAt v \<le> user_createdAt u)"
    using lastUsersRows_newest [of _ db storeId] some by blast
  moreover note getLastUsers_ok [of db storeId]
  moreover have "\<exists>r. getMiddleStatistics db now storeId = Inr r
          \<and> getLastUsers db storeId = Inr (lastUsers r)
          \<and> length (lastUsers r) = length (lastUsersRows db storeId)
          \<and> length (lastUsers r) \<le> 5
          \<and> map lu_id (lastUsers r) = map user_id (lastUsersRows db storeId)
          \<and> map lu_name (lastUsers r) = map user_name (lastUsersRows db storeId)
          \<and> map lu_email (lastUsers r) = map user_email (lastUsersRows db storeId)
          \<and> map lu_picture (lastUsers r) = map user_picture (lastUsersRows db storeId)"
  proof -
    from getLastUsers_ok [of db storeId] obtain rs where
      rs: "getLastUsers db storeId = Inr rs"
      and ids: "map lu_id rs = map user_id (lastUsersRows db storeId)" by blast
    have len: "length rs = length (lastUsersRows db storeId)"
      using ids by (metis length_map)
    have five: "length (lastUsersRows db storeId) \<le> 5"
      unfolding lastUsersRows_def by simp
    have "getMiddleStatistics db now storeId
        = Inr \<lparr>monthlySales = calculateMonthlySales db now storeId, lastUsers = rs\<rparr>"
      unfolding getMiddleStatistics_def Let_def by (simp add: rs)
    then show ?thesis using rs ids len five getLastUsers_fields [OF rs] by simp
  qed
  ultimately show ?thesis by blast
qed

theorem lastUsers_five_newest_witness:
  "mkUser 1 \<in> set (db_users crowdDb)
   \<and> (\<exists>ord \<in> set (db_orders crowdDb). order_userId ord = user_id (mkUser 1) \<and> itemsSome ''S'' ord)
   \<and> mkUser 1 \<notin> set (lastUsersRows crowdDb ''S'')
   \<and> mkUser 6 \<in> set (lastUsersRows crowdDb ''S'')
   \<and> user_createdAt (mkUser 1) \<le> user_createdAt (mkUser 6)
   \<and> (\<exists>ord \<in> set (db_orders crowdDb). order_userId ord = user_id (mkUser 6) \<and> itemsSome ''S'' ord)
   \<and> length (lastUsersRows crowdDb ''S'') = 5
   \<and> (\<exists>r. getMiddleStatistics crowdDb exampleNow ''S'' = Inr r
          \<and> map lu_id (lastUsers r) = [''6'', ''5'', ''4'', ''3'', ''2''])"
proof -
  have a: "mkUser 1 \<in> set (db_users crowdDb)" by code_simp
  have b: "\<exists>ord \<in> set (db_orders crowdDb). order_userId ord = user_id (mkUser 1) \<and> itemsSome ''S'' ord"
    by code_simp
  have c: "mkUser 1 \<notin> set (lastUsersRows crowdDb ''S'')" by code_simp
  have d: "mkUser 6 \<in> set (lastUsersRows crowdDb ''S'')" by code_simp
  have e: "min 5 (length (filter (ordersSome crowdDb ''S'') (db_users crowdDb))) = 5" by code_simp
  note t = lastUsers_five_newest [of crowdDb "''S''" exampleNow]
  from t a b c d have "user_createdAt (mkUser 1) \<le> user_createdAt (mkUser 6)" by blast
  moreover from t d have "\<exists>ord \<in> set (db_orders crowdDb).
      order_userId ord = user_id (mkUser 6) \<and> itemsSome ''S'' ord" by blast
  moreover from t e have "length (lastUsersRows crowdDb ''S'') = 5" by simp
  moreover have "\<exists>r. getMiddleStatistics crowdDb exampleNow ''S'' = Inr r
          \<and> map lu_id (lastUsers r) = [''6'', ''5'', ''4'', ''3'', ''2'']"
  proof -
    have f: "map user_id (lastUsersRows crowdDb ''S'') = [''6'', ''5'', ''4'', ''3'', ''2'']"
      by code_simp
    from t obtain r where "getMiddleStatistics crowdDb exampleNow ''S'' = Inr r"
      and "map lu_id (lastUsers r) = map user_id (lastUsersRows crowdDb ''S'')" by blast
    then show ?thesis using f by auto
  qed
  ultimately show ?thesis using a b c d by blast
qed

text \<open>
  Claim C9. When the query of the daily sales returns no order, the series is empty and the
  trends are returned with it. The callback of the last users throws on a user that came
  without orders, and so does the whole mapping of a list that holds one. The query never
  returns such a user, so that the last users, and with them the trends, are always returned.
\<close>

theorem trends_empty_sales_and_last_order_read:
  "(salesRaw db now storeId = [] \<longrightarrow>
      calculateMonthlySales db now storeId = []
      \<and> (\<exists>us. getMiddleStatistics db now storeId = Inr \<lparr>monthlySales = [], lastUsers = us\<rparr>))
   \<and> (uo_orders u = [] \<longrightarrow> lastUserEntry u = Inl TypeError)
   \<and> (u \<in> set us \<and> uo_orders u = [] \<longrightarrow> mapUsers us = Inl TypeError)
   \<and> (\<forall>q \<in> set (lastUsersQuery db storeId). uo_orders q \<noteq> [])
   \<and> (\<exists>rs. getLastUsers db storeId = Inr rs)
   \<and> (\<exists>r. getMiddleStatistics db now storeId = Inr r)"
proof -
  obtain rs where rs: "getLastUsers db storeId = Inr rs"
    using getLastUsers_ok [of db storeId] by blast
  have "salesRaw db now storeId = [] \<longrightarrow>
      calculateMonthlySales db now storeId = []
      \<and> (\<exists>us. getMiddleStatistics db now storeId = Inr \<lparr>monthlySales = [], lastUsers = us\<rparr>)"
    unfolding getMiddleStatistics_def calculateMonthlySales_def using rs by simp
  moreover have "uo_orders u = [] \<longrightarrow> lastUserEntry u = Inl TypeError"
    unfolding lastUserEntry_def by simp
  moreover have "u \<in> set us \<and> uo_orders u = [] \<longrightarrow> mapUsers us = Inl TypeError"
    using mapUsers_throws by blast
  moreover have "\<forall>q \<in> set (lastUsersQuery db storeId). uo_orders q \<noteq> []"
    using lastUsersQuery_nonempty by blast
  moreover have "\<exists>r. getMiddleStatistics db now storeId = Inr r"
    unfolding getMiddleStatistics_def using rs by simp
  ultimately show ?thesis using rs by blast
qed

theorem trends_empty_sales_and_last_order_read_witness:
  "salesRaw exampleDb exampleNow ''X'' = []
   \<and> calculateMonthlySales exampleDb exampleNow ''X'' = []
   \<and> uo_orders orderlessUser = []
   \<and> lastUserEntry orderlessUser = Inl TypeError
   \<and> orderlessUser \<in> set [orderlessUser]
   \<and> mapUsers [orderlessUser] = Inl TypeError
   \<and> (\<exists>q \<in> set (lastUsersQuery exampleDb ''S''). uo_orders q \<noteq> [])"
proof -
  have a: "salesRaw exampleDb exampleNow ''X'' = []" by code_simp
  have b: "uo_orders orderlessUser = []" by code_simp
  have c: "orderlessUser \<in> set [orderlessUser]" by simp
  have d: "\<exists>q. q \<in> set (lastUsersQuery exampleDb ''S'')" 
  proof -
    have "lastUsersQuery exampleDb ''S'' \<noteq> []" by code_simp
    then show ?thesis by (cases "lastUsersQuery exampleDb ''S''") auto
  qed
  note t = trends_empty_sales_and_last_order_read [of exampleDb exampleNow "''X''" orderlessUser "[orderlessUser]"]
  note t' = trends_empty_sales_and_last_order_read [of exampleDb exampleNow "''S''" orderlessUser "[orderlessUser]"]
  from t a have "calculateMonthlySales exampleDb exampleNow ''X'' = []" by blast
  moreover from t b have "lastUserEntry orderlessUser = Inl TypeError" by blast
  moreover from t b c have "mapUsers [orderlessUser] = Inl TypeError" by blast
  moreover from t' d have "\<exists>q \<in> set (lastUsersQuery exampleDb ''S''). uo_orders q \<noteq> []" by blast
  ultimately show ?thesis using a b c by blast
qed

subsection \<open>Summary\<close>

lemma no_orders_no_revenue:
  "\<forall>ord \<in> set (db_orders db). \<not> itemsSome storeId ord \<Longrightarrow> calculateTotalRevenue db storeId = Fin 0"
  unfolding calculateTotalRevenue_def revenueOrders_def
  by (simp add: filter_empty_conv [THEN iffD2] ofInt_def)

lemma no_reviews_no_average:
  "\<forall>r \<in> set (db_reviews db). review_storeId r \<noteq> storeId \<Longrightarrow> calculateAverageRating db storeId = None"
  unfolding calculateAverageRating_def avgRating_def by (simp add: filter_empty_conv [THEN iffD2])

text \<open>
  Claim C6. The summary is the four metrics Revenue, Products, Categories, Average rating, in
  this order, numbered 1 to 4. With no review of the store the average rating is reported as
  0. With no order, product, category or review of the store all four values are 0; the
  summary is a total function, so nothing is thrown.
\<close>

theorem getMainStatistics_four_metrics:
  "map metric_name (getMainStatistics db storeId)
     = [''Revenue'', ''Products'', ''Categories'', ''Average rating'']
   \<and> map metric_id (getMainStatistics db storeId) = [1, 2, 3, 4]
   \<and> ((\<forall>r \<in> set (db_reviews db). review_storeId r \<noteq> storeId)
        \<longrightarrow> metric_value (getMainStatistics db storeId ! 3) = Fin 0)
   \<and> ((\<forall>ord \<in> set (db_orders db). \<not> itemsSome storeId ord)
        \<and> (\<forall>p \<in> set (db_products db). product_storeId p \<noteq> storeId)
        \<and> (\<forall>c \<in> set (db_categories db). category_storeId c \<noteq> storeId)
        \<and> (\<forall>r \<in> set (db_reviews db). review_storeId r \<noteq> storeId)
        \<longrightarrow> map metric_value (getMainStatistics db storeId) = [Fin 0, Fin 0, Fin 0, Fin 0])"
proof (intro conjI impI)
  show "map metric_name (getMainStatistics db storeId)
     = [''Revenue'', ''Products'', ''Categories'', ''Average rating'']"
    unfolding getMainStatistics_def Let_def by simp
  show "map metric_id (getMainStatistics db storeId) = [1, 2, 3, 4]"
    unfolding getMainStatistics_def Let_def by simp
next
  assume "\<forall>r \<in> set (db_reviews db). review_storeId r \<noteq> storeId"
  then show "metric_value (getMainStatistics db storeId ! 3) = Fin 0"
    unfolding getMainStatistics_def Let_def
    by (simp add: no_reviews_no_average orZero_def ofInt_def numeral_3_eq_3)
next
  assume a: "(\<forall>ord \<in> set (db_orders db). \<not> itemsSome storeId ord)
        \<and> (\<forall>p \<in> set (db_products db). product_storeId p \<noteq> storeId)
        \<and> (\<forall>c \<in> set (db_categories db). category_storeId c \<noteq> storeId)
        \<and> (\<forall>r \<in> set (db_reviews db). review_storeId r \<noteq> storeId)"
  then have "calculateTotalRevenue db storeId = Fin 0" "calculateAverageRating db storeId = None"
    "countProducts db storeId = 0" "countCategories db storeId = 0"
    by (simp_all add: no_orders_no_revenue no_reviews_no_average countProducts_def
        countCategories_def filter_empty_conv [THEN iffD2])
  then show "map metric_value (getMainStatistics db storeId) = [Fin 0, Fin 0, Fin 0, Fin 0]"
    unfolding getMainStatistics_def Let_def by (simp add: orZero_def ofInt_def)
qed

theorem getMainStatistics_four_metrics_witness:
  "list_all (\<lambda>r. review_storeId r \<noteq> ''S'') (db_reviews exampleDb)
   \<and> metric_value (getMainStatistics exampleDb ''S'' ! 3) = Fin 0
   \<and> list_all (\<lambda>ord. \<not> itemsSome ''X'' ord) (db_orders exampleDb)
   \<and> list_all (\<lambda>p. product_storeId p \<noteq> ''X'') (db_products exampleDb)
   \<and> list_all (\<lambda>c. category_storeId c \<noteq> ''X'') (db_categories exampleDb)
   \<and> list_all (\<lambda>r. review_storeId r \<noteq> ''X'') (db_reviews exampleDb)
   \<and> map metric_value (getMainStatistics exampleDb ''X'') = [Fin 0, Fin 0, Fin 0, Fin 0]"
proof -
  have a: "list_all (\<lambda>r. review_storeId r \<noteq> ''S'') (db_reviews exampleDb)" by code_simp
  have b: "list_all (\<lambda>ord. \<not> itemsSome ''X'' ord) (db_orders exampleDb)" by code_simp
  have c: "list_all (\<lambda>p. product_storeId p \<noteq> ''X'') (db_products exampleDb)" by code_simp
  have d: "list_all (\<lambda>c. category_storeId c \<noteq> ''X'') (db_categories exampleDb)" by code_simp
  have e: "list_all (\<lambda>r. review_storeId r \<noteq> ''X'') (db_reviews exampleDb)" by code_simp
  from getMainStatistics_four_metrics [of exampleDb "''S''"] a
  have "metric_value (getMainStatistics exampleDb ''S'' ! 3) = Fin 0"
    unfolding list_all_iff by blast
  moreover from getMainStatistics_four_metrics [of exampleDb "''X''"] b c d e
  have "map metric_value (getMainStatistics exampleDb ''X'') = [Fin 0, Fin 0, Fin 0, Fin 0]"
    unfolding list_all_iff by blast
  ultimately show ?thesis using a b c d e by blast
qed

section \<open>Properties of the category service\<close>

lemma findUnique_None:
  "cid \<notin> category_id ` set (db_categories db) \<Longrightarrow> findUnique db cid = None"
  unfolding findUnique_def by (auto simp: find_None_iff)

text \<open>
  Claim C4. For an id that no category has, \<open>getById\<close>, \<open>update\<close> and \<open>delete\<close> all fail
  with the same not-found error, and the database they leave behind is the one they were
  given.
\<close>

theorem absent_id_NotFound_unchanged:
  "cid \<notin> category_id ` set (db_categories db) \<Longrightarrow>
     getById db cid = (Inl (NotFoundException ''Category not found''), db)
     \<and> update db cid dto = (Inl (NotFoundException ''Category not found''), db)
     \<and> delete db cid = (Inl (NotFoundException ''Category not found''), db)"
  unfolding update_def delete_def getById_def by (simp add: findUnique_None)

theorem absent_id_NotFound_unchanged_witness:
  "''c9'' \<notin> category_id ` set (db_categories exampleDb)
   \<and> getById exampleDb ''c9'' = (Inl (NotFoundException ''Category not found''), exampleDb)
   \<and> update exampleDb ''c9'' sandalsDto = (Inl (NotFoundException ''Category not found''), exampleDb)
   \<and> delete exampleDb ''c9'' = (Inl (NotFoundException ''Category not found''), exampleDb)"
proof -
  have h: "''c9'' \<notin> category_id ` set (db_categories exampleDb)" by code_simp
  from absent_id_NotFound_unchanged [OF h, of sandalsDto] h show ?thesis by blast
qed

lemma idTaken_iff: "idTaken db cid \<longleftrightarrow> cid \<in> category_id ` set (db_categories db)"
  unfolding idTaken_def by (auto simp: list_ex_iff)

lemma find_snoc_fresh:
  "\<forall>x \<in> set xs. \<not> P x \<Longrightarrow> P y \<Longrightarrow> find P (xs @ [y]) = Some y"
  by (induction xs) simp_all

text \<open>
  Claim C8, as the code has it. The row that \<open>create\<close> writes has the id the dto carries,
  or the one the store assigns when the dto carries none. When no category has this id yet
  (so for every dto of the declared shape), creating succeeds, and reading the created row
  back by its id succeeds and returns that row: its name and slug are those of the dto and
  its store key is the store id given. When a category has this id already, the store
  refuses the row and the database stays as it was.
\<close>

theorem create_getById_roundtrip:
  "((case dto_id dto of None \<Rightarrow> newId | Some i \<Rightarrow> i) \<notin> category_id ` set (db_categories db)
      \<longrightarrow> (\<exists>row db'. create newId db storeId dto = (Inr row, db')
            \<and> getById db' (category_id row) = (Inr row, db')
            \<and> category_id row = (case dto_id dto of None \<Rightarrow> newId | Some i \<Rightarrow> i)
            \<and> category_name row = dto_name dto
            \<and> category_slug row = dto_slug dto
            \<and> category_storeId row = storeId))
   \<and> ((case dto_id dto of None \<Rightarrow> newId | Some i \<Rightarrow> i) \<in> category_id ` set (db_categories db)
      \<longrightarrow> create newId db storeId dto = (Inl UniqueConstraintViolation, db))"
proof (intro conjI impI)
  let ?rid = "case dto_id dto of None \<Rightarrow> newId | Some i \<Rightarrow> i"
  let ?row = "\<lparr>category_id = ?rid, category_storeId = storeId,
                 category_name = dto_name dto, category_slug = dto_slug dto\<rparr>"
  let ?db = "db\<lparr>db_categories := db_categories db @ [?row]\<rparr>"
  assume fresh: "?rid \<notin> category_id ` set (db_categories db)"
  then have "create newId db storeId dto = (Inr ?row, ?db)"
    unfolding create_def Let_def by (simp add: idTaken_iff)
  moreover have "\<forall>x \<in> set (db_categories db). category_id x \<noteq> ?rid"
    using fresh by (metis imageI)
  then have "find (\<lambda>c. category_id c = ?rid) (db_categories db @ [?row]) = Some ?row"
    by (intro find_snoc_fresh) simp_all
  then have "getById ?db (category_id ?row) = (Inr ?row, ?db)"
    unfolding getById_def findUnique_def by simp
  ultimately show "\<exists>row db'. create newId db storeId dto = (Inr row, db')
            \<and> getById db' (category_id row) = (Inr row, db')
            \<and> category_id row = ?rid
            \<and> category_name row = dto_name dto
            \<and> category_slug row = dto_slug dto
            \<and> category_storeId row = storeId"
    by simp
next
  assume "(case dto_id dto of None \<Rightarrow> newId | Some i \<Rightarrow> i) \<in> category_id ` set (db_categories db)"
  then show "create newId db storeId dto = (Inl UniqueConstraintViolation, db)"
    unfolding create_def Let_def by (simp add: idTaken_iff)
qed

theorem create_getById_roundtrip_witness:
  "''c3'' \<notin> category_id ` set (db_categories exampleDb)
   \<and> (\<exists>row db'. create ''c3'' exampleDb ''S'' sandalsDto = (Inr row, db')
       \<and> getById db' (category_id row) = (Inr row, db')
       \<and> category_id row = ''c3''
       \<and> category_name row = ''Sandals''
       \<and> category_slug row = ''sandals''
       \<and> category_storeId row = ''S'')
   \<and> ''c2'' \<in> category_id ` set (db_categories exampleDb)
   \<and> create ''c3'' exampleDb ''S'' clashingDto = (Inl UniqueConstraintViolation, exampleDb)"
proof -
  have h: "''c3'' \<notin> category_id ` set (db_categories exampleDb)" by code_simp
  have g: "''c2'' \<in> category_id ` set (db_categories exampleDb)" by code_simp
  have d: "dto_id sandalsDto = None" "dto_name sandalsDto = ''Sandals''"
    "dto_slug sandalsDto = ''sandals''" "dto_id clashingDto = Some ''c2''"
    by (simp_all add: sandalsDto_def clashingDto_def)
  from create_getById_roundtrip [where dto = sandalsDto and newId = "''c3''" and db = exampleDb
      and storeId = "''S''", THEN conjunct1] h
  have "\<exists>row db'. create ''c3'' exampleDb ''S'' sandalsDto = (Inr row, db')
       \<and> getById db' (category_id row) = (Inr row, db')
       \<and> category_id row = ''c3''
       \<and> category_name row = ''Sandals''
       \<and> category_slug row = ''sandals''
       \<and> category_storeId row = ''S''"
    by (simp add: d)
  moreover from create_getById_roundtrip [where dto = clashingDto and newId = "''c3''"
      and db = exampleDb and storeId = "''S''", THEN conjunct2] g
  have "create ''c3'' exampleDb ''S'' clashingDto = (Inl UniqueConstraintViolation, exampleDb)"
    by (simp add: d)
  ultimately show ?thesis using h g by blast
qed

text \<open>
  Claim C8, as stated for every dto, fails at a dto that carries the id of a category of the
  table: the store refuses the row, and nothing is there to be read back.
\<close>

theorem create_refuses_taken_id:
  "create ''c3'' exampleDb ''S'' clashingDto = (Inl UniqueConstraintViolation, exampleDb)
   \<and> dto_id clashingDto = Some ''c2''
   \<and> findUnique exampleDb ''c2'' = Some hats"
  by code_simp

lemma find_Some_id: "find (\<lambda>c. category_id c = cid) xs = Some c \<Longrightarrow> category_id c = cid"
  by (induction xs) (auto split: if_splits)

lemma applyDto_id:
  "category_id (applyDto dto c) = (case dto_id dto of None \<Rightarrow> category_id c | Some i \<Rightarrow> i)"
  by (simp add: applyDto_def)

lemma find_map_applyDto:
  assumes "t = (case dto_id dto of None \<Rightarrow> cid | Some i \<Rightarrow> i)"
    and "t = cid \<or> t \<notin> category_id ` set xs"
  shows "find (\<lambda>c. category_id c = t)
           (map (\<lambda>c. if category_id c = cid then applyDto dto c else c) xs)
         = map_option (applyDto dto) (find (\<lambda>c. category_id c = cid) xs)"
  using assms(2)
proof (induction xs)
  case Nil
  then show ?case by simp
next
  case (Cons x xs)
  show ?case
  proof (cases "category_id x = cid")
    case True
    then have "category_id (applyDto dto x) = t"
      using assms(1) by (simp add: applyDto_id split: option.splits)
    then show ?thesis using True by simp
  next
    case False
    then have "category_id x \<noteq> t" using Cons.prems by auto
    moreover have "t = cid \<or> t \<notin> category_id ` set xs" using Cons.prems by auto
    ultimately show ?thesis using False Cons.IH by simp
  qed
qed

text \<open>
  Claim C10, as the code has it. The dto is written whole: updating an existing category
  overwrites every column the dto carries, its name and slug and, when the dto carries
  them, its store key and its id. The call returns the row so written, and the row can be
  read back under the id it then has. In the database left behind only the category table
  may differ; it has as many rows at the same places, and a row of another id is as it
  was. With a dto of the declared shape, which carries neither, every row keeps its id and
  its store key. A dto that carries the id of another category is refused by the store,
  and the database stays as it was.
\<close>

theorem update_frame:
  "findUnique db cid = Some c \<Longrightarrow>
     ((case dto_id dto of None \<Rightarrow> False
        | Some i \<Rightarrow> i \<noteq> cid \<and> i \<in> category_id ` set (db_categories db))
       \<longrightarrow> update db cid dto = (Inl UniqueConstraintViolation, db))
     \<and> ((case dto_id dto of None \<Rightarrow> True
          | Some i \<Rightarrow> i = cid \<or> i \<notin> category_id ` set (db_categories db))
       \<longrightarrow> (\<exists>written db'. update db cid dto = (Inr written, db')
             \<and> written
                 = \<lparr>category_id = (case dto_id dto of None \<Rightarrow> cid | Some i \<Rightarrow> i),
                    category_storeId
                      = (case dto_storeId dto of None \<Rightarrow> category_storeId c | Some s \<Rightarrow> s),
                    category_name = dto_name dto,
                    category_slug = dto_slug dto\<rparr>
             \<and> findUnique db' (category_id written) = Some written
             \<and> db' = db\<lparr>db_categories := db_categories db'\<rparr>
             \<and> length (db_categories db') = length (db_categories db)
             \<and> (\<forall>k < length (db_categories db).
                  (category_id (db_categories db ! k) \<noteq> cid
                     \<longrightarrow> db_categories db' ! k = db_categories db ! k)
                  \<and> (category_id (db_categories db ! k) = cid
                     \<longrightarrow> db_categories db' ! k
                       = \<lparr>category_id = (case dto_id dto of None \<Rightarrow> cid | Some i \<Rightarrow> i),
                          category_storeId
                            = (case dto_storeId dto of
                                 None \<Rightarrow> category_storeId (db_categories db ! k)
                               | Some s \<Rightarrow> s),
                          category_name = dto_name dto,
                          category_slug = dto_slug dto\<rparr>))
             \<and> (dto_id dto = None \<and> dto_storeId dto = None
                  \<longrightarrow> (\<forall>k < length (db_categories db).
                        category_id (db_categories db' ! k) = category_id (db_categories db ! k)
                        \<and> category_storeId (db_categories db' ! k)
                            = category_storeId (db_categories db ! k)))))"
proof (intro conjI impI)
  assume found: "findUnique db cid = Some c"
  have cid: "category_id c = cid" using found unfolding findUnique_def by (rule find_Some_id)
  assume "case dto_id dto of None \<Rightarrow> False
        | Some i \<Rightarrow> i \<noteq> cid \<and> i \<in> category_id ` set (db_categories db)"
  then show "update db cid dto = (Inl UniqueConstraintViolation, db)"
    unfolding update_def getById_def Let_def using found
    by (simp add: applyDto_id idTaken_iff split: option.splits)
next
  assume found: "findUnique db cid = Some c"
  have cid: "category_id c = cid" using found unfolding findUnique_def by (rule find_Some_id)
  assume ok: "case dto_id dto of None \<Rightarrow> True
          | Some i \<Rightarrow> i = cid \<or> i \<notin> category_id ` set (db_categories db)"
  let ?t = "case dto_id dto of None \<Rightarrow> cid | Some i \<Rightarrow> i"
  let ?cs = "map (\<lambda>c. if category_id c = cid then applyDto dto c else c) (db_categories db)"
  let ?db = "db\<lparr>db_categories := ?cs\<rparr>"
  have t: "category_id (applyDto dto c) = ?t"
    using cid by (simp add: applyDto_id split: option.splits)
  have tok: "?t = cid \<or> ?t \<notin> category_id ` set (db_categories db)"
    using ok by (simp split: option.splits)
  then have "\<not> (?t \<noteq> cid \<and> idTaken db ?t)" by (auto simp: idTaken_iff)
  then have u: "update db cid dto = (Inr (applyDto dto c), ?db)"
    unfolding update_def getById_def Let_def using found by (simp add: t)
  have w: "applyDto dto c
      = \<lparr>category_id = ?t,
         category_storeId = (case dto_storeId dto of None \<Rightarrow> category_storeId c | Some s \<Rightarrow> s),
         category_name = dto_name dto, category_slug = dto_slug dto\<rparr>"
    using cid by (simp add: applyDto_def split: option.splits)
  have f: "findUnique ?db (category_id (applyDto dto c)) = Some (applyDto dto c)"
    using found find_map_applyDto [OF refl tok] unfolding findUnique_def by (simp add: t)
  have rows: "\<forall>k < length (db_categories db).
        (category_id (db_categories db ! k) \<noteq> cid \<longrightarrow> ?cs ! k = db_categories db ! k)
        \<and> (category_id (db_categories db ! k) = cid
             \<longrightarrow> ?cs ! k
               = \<lparr>category_id = ?t,
                  category_storeId
                    = (case dto_storeId dto of
                         None \<Rightarrow> category_storeId (db_categories db ! k) | Some s \<Rightarrow> s),
                  category_name = dto_name dto, category_slug = dto_slug dto\<rparr>)"
    by (simp add: applyDto_def split: option.splits)
  have keep: "dto_id dto = None \<and> dto_storeId dto = None
      \<longrightarrow> (\<forall>k < length (db_categories db).
            category_id (?cs ! k) = category_id (db_categories db ! k)
            \<and> category_storeId (?cs ! k) = category_storeId (db_categories db ! k))"
    by (simp add: applyDto_def split: option.splits)
  show "\<exists>written db'. update db cid dto = (Inr written, db')
      \<and> written
          = \<lparr>category_id = ?t,
             category_storeId
               = (case dto_storeId dto of None \<Rightarrow> category_storeId c | Some s \<Rightarrow> s),
             category_name = dto_name dto,
             category_slug = dto_slug dto\<rparr>
      \<and> findUnique db' (category_id written) = Some written
      \<and> db' = db\<lparr>db_categories := db_categories db'\<rparr>
      \<and> length (db_categories db') = length (db_categories db)
      \<and> (\<forall>k < length (db_categories db).
           (category_id (db_categories db ! k) \<noteq> cid
              \<longrightarrow> db_categories db' ! k = db_categories db ! k)
           \<and> (category_id (db_categories db ! k) = cid
              \<longrightarrow> db_categories db' ! k
                = \<lparr>category_id = ?t,
                   category_storeId
                     = (case dto_storeId dto of
                          None \<Rightarrow> category_storeId (db_categories db ! k)
                        | Some s \<Rightarrow> s),
                   category_name = dto_name dto,
                   category_slug = dto_slug dto\<rparr>))
      \<and> (dto_id dto = None \<and> dto_storeId dto = None
           \<longrightarrow> (\<forall>k < length (db_categories db).
                 category_id (db_categories db' ! k) = category_id (db_categories db ! k)
                 \<and> category_storeId (db_categories db' ! k)
                     = category_storeId (db_categories db ! k)))"
  proof (intro exI conjI)
    show "update db cid dto = (Inr (applyDto dto c), ?db)" by (rule u)
    show "applyDto dto c = \<lparr>category_id = ?t,
             category_storeId
               = (case dto_storeId dto of None \<Rightarrow> category_storeId c | Some s \<Rightarrow> s),
             category_name = dto_name dto,
             category_slug = dto_slug dto\<rparr>" by (rule w)
    show "findUnique ?db (category_id (applyDto dto c)) = Some (applyDto dto c)" by (rule f)
    show "?db = db\<lparr>db_categories := db_categories ?db\<rparr>" by simp
    show "length (db_categories ?db) = length (db_categories db)" by simp
    show "\<forall>k < length (db_categories db).
           (category_id (db_categories db ! k) \<noteq> cid
              \<longrightarrow> db_categories ?db ! k = db_categories db ! k)
           \<and> (category_id (db_categories db ! k) = cid
              \<longrightarrow> db_categories ?db ! k
                = \<lparr>category_id = ?t,
                   category_storeId
                     = (case dto_storeId dto of
                          None \<Rightarrow> category_storeId (db_categories db ! k)
                        | Some s \<Rightarrow> s),
                   category_name = dto_name dto,
                   category_slug = dto_slug dto\<rparr>)"
      using rows by simp
    show "dto_id dto = None \<and> dto_storeId dto = None
           \<longrightarrow> (\<forall>k < length (db_categories db).
                 category_id (db_categories ?db ! k) = category_id (db_categories db ! k)
                 \<and> category_storeId (db_categories ?db ! k)
                     = category_storeId (db_categories db ! k))"
      using keep by simp
  qed
qed


theorem update_frame_witness:
  "findUnique exampleDb ''c1'' = Some shoes
   \<and> update exampleDb ''c1'' clashingDto = (Inl UniqueConstraintViolation, exampleDb)
   \<and> (\<exists>written db'. update exampleDb ''c1'' sandalsDto = (Inr written, db')
        \<and> written = \<lparr>category_id = ''c1'', category_storeId = ''S'',
                       category_name = ''Sandals'', category_slug = ''sandals''\<rparr>
        \<and> db_categories db' ! 0 = written
        \<and> db_categories db' ! 1 = hats)"
proof -
  have h: "findUnique exampleDb ''c1'' = Some shoes" by code_simp
  have k: "db_categories exampleDb = [shoes, hats]" by (simp add: exampleDb_def)
  have ids: "category_id shoes = ''c1''" "category_id hats = ''c2''"
    "category_storeId shoes = ''S''"
    by (simp_all add: shoes_def hats_def)
  have d: "dto_id sandalsDto = None" "dto_storeId sandalsDto = None"
    "dto_name sandalsDto = ''Sandals''" "dto_slug sandalsDto = ''sandals''"
    "dto_id clashingDto = Some ''c2''"
    by (simp_all add: sandalsDto_def clashingDto_def)
  from update_frame [OF h, where dto = clashingDto, THEN conjunct1]
  have e: "update exampleDb ''c1'' clashingDto = (Inl UniqueConstraintViolation, exampleDb)"
    by (simp add: d k ids)
  from update_frame [OF h, where dto = sandalsDto, THEN conjunct2]
  obtain written db' where
    u: "update exampleDb ''c1'' sandalsDto = (Inr written, db')"
    and w: "written = \<lparr>category_id = ''c1'', category_storeId = ''S'',
                       category_name = ''Sandals'', category_slug = ''sandals''\<rparr>"
    and rows: "\<forall>k < length (db_categories exampleDb).
        (category_id (db_categories exampleDb ! k) \<noteq> ''c1''
           \<longrightarrow> db_categories db' ! k = db_categories exampleDb ! k)
        \<and> (category_id (db_categories exampleDb ! k) = ''c1''
           \<longrightarrow> db_categories db' ! k
             = \<lparr>category_id = ''c1'',
                category_storeId = category_storeId (db_categories exampleDb ! k),
                category_name = ''Sandals'', category_slug = ''sandals''\<rparr>)"
    by (auto simp: d ids)
  from rows [rule_format, of 0] rows [rule_format, of 1]
  have "db_categories db' ! 0 = written" "db_categories db' ! 1 = hats"
    by (simp_all add: k ids w)
  then show ?thesis using h e u w by blast
qed

text \<open>
  Claim C10, as stated for every dto, fails at a dto that carries a store key: the update
  moves the category from store \<open>S\<close> to store \<open>T\<close>.
\<close>

theorem update_moves_store:
  "findUnique exampleDb ''c1'' = Some shoes
   \<and> category_storeId shoes = ''S''
   \<and> fst (update exampleDb ''c1'' movingDto)
       = Inr \<lparr>category_id = ''c1'', category_storeId = ''T'',
              category_name = ''Sandals'', category_slug = ''sandals''\<rparr>
   \<and> db_categories (snd (update exampleDb ''c1'' movingDto))
       = [\<lparr>category_id = ''c1'', category_storeId = ''T'',
            category_name = ''Sandals'', category_slug = ''sandals''\<rparr>, hats]"
  by code_simp

end
